theory Spec2Isabelle
  imports Main
begin

section \<open>The input: the assembly AST\<close>

text \<open>
  The generator of \<^verbatim>\<open>libjulia/backends/webassembly/WebAssembly.cpp\<close> visits the
  statements of \<^verbatim>\<open>libsolidity/inlineasm/AsmData.h\<close>. The structs are modelled with the
  fields the generator reads (source locations are never read and are left out). A
  \<^verbatim>\<open>std::shared_ptr\<close> is an option (\<open>None\<close> is the null pointer), a
  \<^verbatim>\<open>std::vector\<close> a list, \<^verbatim>\<open>std::string\<close> a string. Field selectors carry a
  prefix of their struct, since \<^verbatim>\<open>name\<close>, \<^verbatim>\<open>type\<close> and \<^verbatim>\<open>value\<close> occur in several
  structs.
\<close>

type_synonym Type = string

datatype LiteralKind = Number | Boolean | String

datatype Literal = MkLiteral (lit_kind: LiteralKind) (lit_value: string) (lit_type: Type)

datatype TypedName = MkTypedName (tn_name: string) (tn_type: Type)

text \<open>
  \<^verbatim>\<open>Statement\<close> is the \<^verbatim>\<open>boost::variant\<close> over the twelve node kinds; the constructors
  carry the names of the alternatives. \<open>Identifier\<close>, \<open>StackAssignment\<close> and \<open>Label\<close> hold
  their \<^verbatim>\<open>name\<close>, \<open>Assignment\<close> holds \<^verbatim>\<open>variableName.name\<close> and \<^verbatim>\<open>value\<close>,
  \<open>FunctionDefinition\<close> holds \<^verbatim>\<open>name\<close>, \<^verbatim>\<open>arguments\<close>, \<^verbatim>\<open>returns\<close> and \<^verbatim>\<open>body\<close>,
  \<open>FunctionCall\<close> holds \<^verbatim>\<open>functionName.name\<close> and \<^verbatim>\<open>arguments\<close>, \<open>Switch\<close> holds
  \<^verbatim>\<open>expression\<close> and \<^verbatim>\<open>cases\<close>.
\<close>

datatype Statement =
    Instruction
  | FunctionalInstruction "Statement list"
  | StackAssignment string
  | Label string
  | Literal Literal
  | Identifier string
  | VariableDeclaration "TypedName list" "Statement option"
  | Assignment string "Statement option"
  | FunctionDefinition string "TypedName list" "TypedName list" Block
  | FunctionCall string "Statement list"
  | Switch "Statement option" "Case list"
  | Block Block
and Block = MkBlock (statements: "Statement list")
and Case = MkCase (case_value: "Literal option") (case_body: Block)

section \<open>Failures\<close>

text \<open>
  \<^verbatim>\<open>solAssert(c, msg)\<close> throws an internal compiler error carrying \<^verbatim>\<open>msg\<close> when \<^verbatim>\<open>c\<close>
  is false; the exception leaves \<^verbatim>\<open>assemble\<close>, so no text is returned. Dereferencing a
  null \<^verbatim>\<open>shared_ptr\<close> and indexing a vector beyond its end are undefined behaviour in
  C++: the model stops there with a failure of its own, distinct from every diagnostic.
\<close>

datatype failure =
    InternalCompilerError string
  | NullPointerDereference
  | VectorOutOfRange

definition and_then :: "failure + 'a \<Rightarrow> ('a \<Rightarrow> failure + 'b) \<Rightarrow> failure + 'b" where
  "and_then r f = (case r of Inl e \<Rightarrow> Inl e | Inr x \<Rightarrow> f x)"

text \<open>\<^verbatim>\<open>v[i]\<close> on a \<^verbatim>\<open>std::vector\<close>.\<close>

fun at :: "'a list \<Rightarrow> nat \<Rightarrow> failure + 'a" where
  "at [] i = Inl VectorOutOfRange"
| "at (x # xs) 0 = Inr x"
| "at (x # xs) (Suc i) = at xs i"

text \<open>\<^verbatim>\<open>*p\<close> on a \<^verbatim>\<open>std::shared_ptr\<close>.\<close>

definition deref :: "'a option \<Rightarrow> failure + 'a" where
  "deref p = (case p of None \<Rightarrow> Inl NullPointerDereference | Some x \<Rightarrow> Inr x)"

section \<open>The text emitter\<close>

text \<open>
  \<^verbatim>\<open>IndentedWriter.h\<close> is not among the sources. The generator only ever calls the
  writer's five mutators and, once at the end, \<^verbatim>\<open>format\<close>; the state of the writer is
  therefore modelled as the sequence of the calls made on it so far, and \<^verbatim>\<open>format\<close> is
  a parameter of \<open>assemble\<close> below.
\<close>

datatype WriterCall = Add string | AddLine string | NewLine | Indent | Unindent

type_synonym IndentedWriter = "WriterCall list"

definition add :: "string \<Rightarrow> IndentedWriter \<Rightarrow> IndentedWriter" where
  "add s output = output @ [Add s]"

definition addLine :: "string \<Rightarrow> IndentedWriter \<Rightarrow> IndentedWriter" where
  "addLine s output = output @ [AddLine s]"

definition newLine :: "IndentedWriter \<Rightarrow> IndentedWriter" where
  "newLine output = output @ [NewLine]"

definition indent :: "IndentedWriter \<Rightarrow> IndentedWriter" where
  "indent output = output @ [Indent]"

definition unindent :: "IndentedWriter \<Rightarrow> IndentedWriter" where
  "unindent output = output @ [Unindent]"

section \<open>The generator\<close>

text \<open>\<^verbatim>\<open>Generator::convertType\<close>.\<close>

definition supportedTypes :: "string list" where
  "supportedTypes = [''bool'', ''u8'', ''s8'', ''u32'', ''s32'', ''u64'', ''s64'']"

definition convertType :: "Type \<Rightarrow> failure + string" where
  "convertType type =
     (if type = [] then Inl (InternalCompilerError ''Only Julia input is supported.'')
      else if type \<notin> set supportedTypes
        then Inl (InternalCompilerError (''Type ('' @ type @ '') not supported yet.''))
      else Inr ''i64'')"

text \<open>\<^verbatim>\<open>Generator::operator()(assembly::Literal const&)\<close>.\<close>

definition visitLiteral :: "Literal \<Rightarrow> IndentedWriter \<Rightarrow> failure + IndentedWriter" where
  "visitLiteral literal output =
     (if lit_kind literal = Number then
        and_then (convertType (lit_type literal)) (\<lambda>t.
          Inr (add (''('' @ t @ ''.const '' @ lit_value literal @ '')'') output))
      else if lit_kind literal = Boolean then
        and_then (convertType (lit_type literal)) (\<lambda>t.
          Inr (add (''('' @ t @ ''.const '' @
                    (if lit_value literal = ''true'' then ''1'' else ''0'') @ '')'') output))
      else Inl (InternalCompilerError ''Non-number literals not supported.''))"

text \<open>The loop over \<^verbatim>\<open>_funDef.arguments\<close> in the visitor of function definitions.\<close>

fun visitParameters :: "TypedName list \<Rightarrow> IndentedWriter \<Rightarrow> failure + IndentedWriter" where
  "visitParameters [] output = Inr output"
| "visitParameters (argument # rest) output =
     and_then (convertType (tn_type argument)) (\<lambda>t.
       visitParameters rest
         (addLine (''(param $'' @ tn_name argument @ '' '' @ t @ '')'') output))"

text \<open>
  The loop over \<^verbatim>\<open>_funDef.returns\<close>; it yields the writer and \<^verbatim>\<open>returnName\<close>, which
  starts as the empty string.
\<close>

fun visitReturns ::
  "TypedName list \<Rightarrow> string \<Rightarrow> IndentedWriter \<Rightarrow> failure + (string \<times> IndentedWriter)" where
  "visitReturns [] returnName output = Inr (returnName, output)"
| "visitReturns (returnArgument # rest) returnName output =
     and_then (convertType (tn_type returnArgument)) (\<lambda>t.
     and_then (convertType (tn_type returnArgument)) (\<lambda>t'.
       visitReturns rest (tn_name returnArgument)
         (addLine (''(local $'' @ tn_name returnArgument @ '' '' @ t' @ '')'')
           (addLine (''(result '' @ t @ '')'') output))))"

text \<open>\<^verbatim>\<open>!!defaultcase\<close>, used as a vector index.\<close>

definition bangbang :: "nat \<Rightarrow> nat" where
  "bangbang n = (if n \<noteq> 0 then 1 else 0)"

text \<open>
  The head of \<^verbatim>\<open>operator()(assembly::Switch const&)\<close>, up to the last of its three
  assertions: it yields \<^verbatim>\<open>defaultcase\<close>. In the second assertion
  \<^verbatim>\<open>cases[0].value || cases[1].value\<close> the right operand is read only when the left one
  is null. \<^verbatim>\<open>_switch.cases.size() - 1\<close> is evaluated only after \<^verbatim>\<open>cases[0]\<close> has been
  read, on a vector that is not empty.
\<close>

definition switchDefaultcase :: "Case list \<Rightarrow> failure + nat" where
  "switchDefaultcase cases =
     (if \<not> length cases \<le> 2 then Inl (InternalCompilerError [])
      else
        and_then (at cases 0) (\<lambda>case0.
        and_then (if case_value case0 \<noteq> None then Inr True
                  else and_then (at cases 1) (\<lambda>case1. Inr (case_value case1 \<noteq> None)))
          (\<lambda>one.
        if \<not> one then Inl (InternalCompilerError [])
        else
          and_then (at cases 0) (\<lambda>case0'.
          let defaultcase = (if case_value case0' \<noteq> None then 0 else 1 :: nat) in
          if \<not> defaultcase \<le> length cases - 1 then Inl (InternalCompilerError [])
          else Inr defaultcase))))"

text \<open>\<^verbatim>\<open>*(_switch.cases[i].value)\<close>.\<close>

definition switchCaseValue :: "Case list \<Rightarrow> nat \<Rightarrow> failure + Literal" where
  "switchCaseValue cases i = and_then (at cases i) (\<lambda>c. deref (case_value c))"

text \<open>
  The visitor. \<open>visit\<close> is \<^verbatim>\<open>boost::apply_visitor(*this, statement)\<close>, \<open>visitBlock\<close> is
  \<^verbatim>\<open>operator()(assembly::Block const&)\<close>, \<open>visitStatements\<close> is the private member of
  that name with \<open>forEach\<close> its \<^verbatim>\<open>std::for_each\<close>, \<open>visitArguments\<close> is the loop of the
  call visitor, \<open>visitCaseBody cases i\<close> is \<^verbatim>\<open>(*this)(_switch.cases[i].body)\<close>, and
  \<open>builtin instruction\<close> is the branch that the four arms of
  \<^verbatim>\<open>resolveBuiltinFunction\<close> repeat with their own instruction text.
  \<open>resolveBuiltinFunction\<close> yields the returned flag and the writer.
\<close>

function (sequential) visit :: "Statement \<Rightarrow> IndentedWriter \<Rightarrow> failure + IndentedWriter"
  and visitBlock :: "Block \<Rightarrow> IndentedWriter \<Rightarrow> failure + IndentedWriter"
  and visitStatements :: "Block \<Rightarrow> IndentedWriter \<Rightarrow> failure + IndentedWriter"
  and forEach :: "Statement list \<Rightarrow> IndentedWriter \<Rightarrow> failure + IndentedWriter"
  and visitArguments :: "Statement list \<Rightarrow> IndentedWriter \<Rightarrow> failure + IndentedWriter"
  and visitCaseBody :: "Case list \<Rightarrow> nat \<Rightarrow> IndentedWriter \<Rightarrow> failure + IndentedWriter"
  and builtin :: "string \<Rightarrow> Statement list \<Rightarrow> IndentedWriter \<Rightarrow> failure + IndentedWriter"
  and resolveBuiltinFunction ::
    "string \<Rightarrow> Statement list \<Rightarrow> IndentedWriter \<Rightarrow> failure + (bool \<times> IndentedWriter)"
where
  "visit Instruction output =
     Inl (InternalCompilerError ''Instructions are not supported in Julia.'')"
| "visit (FunctionalInstruction arguments) output =
     Inl (InternalCompilerError ''Instructions are not supported in Julia.'')"
| "visit (StackAssignment name) output =
     Inl (InternalCompilerError ''Assignment from stack is not supported in Julia.'')"
| "visit (Label name) output =
     Inl (InternalCompilerError ''Labels are not supported in Julia.'')"
| "visit (Literal literal) output = visitLiteral literal output"
| "visit (Identifier name) output = Inr (add (''(get_local $'' @ name @ '')'') output)"
| "visit (VariableDeclaration variables val) output =
     (if length variables \<noteq> 1 then Inl (InternalCompilerError ''Tuples not supported yet.'')
      else
        (case convertType (tn_type (hd variables)) of Inl e \<Rightarrow> Inl e
          | Inr t \<Rightarrow>
          (case val of
             None \<Rightarrow> Inl NullPointerDereference
           | Some v \<Rightarrow>
               (case visit v
                  (indent (addLine (''(set_local $'' @ tn_name (hd variables) @ '' '')
                    (addLine (''(local $'' @ tn_name (hd variables) @ '' '' @ t @ '')'')
                      output)))
                of Inl e \<Rightarrow> Inl e
                 | Inr output' \<Rightarrow> Inr (newLine (add '')'' (unindent output')))))))"
| "visit (Assignment variableName val) output =
     (case val of
        None \<Rightarrow> Inl NullPointerDereference
      | Some v \<Rightarrow>
          (case visit v (indent (addLine (''(set_local $'' @ variableName @ '' '') output))
           of Inl e \<Rightarrow> Inl e
            | Inr output' \<Rightarrow> Inr (newLine (add '')'' (unindent output')))))"
| "visit (FunctionDefinition name arguments returns body) output =
     (case visitParameters arguments
             (indent (addLine (''(func $'' @ name @ '' '') (newLine output)))
      of Inl e \<Rightarrow> Inl e
       | Inr output1 \<Rightarrow>
     if \<not> length returns \<le> 1
       then Inl (InternalCompilerError ''Multiple return values not supported yet.'')
     else
     (case visitReturns returns [] output1
      of Inl e \<Rightarrow> Inl e
       | Inr (returnName, output2) \<Rightarrow>
     (case visitStatements body (newLine (newLine output2))
      of Inl e \<Rightarrow> Inl e
       | Inr output3 \<Rightarrow>
         Inr (newLine (addLine '')'' (unindent
           ((if returnName \<noteq> [] then addLine (''(return $'' @ returnName @ '')'') else id)
             (newLine (newLine output3)))))))))"
| "visit (FunctionCall functionName arguments) output =
     (case resolveBuiltinFunction functionName arguments output
      of Inl e \<Rightarrow> Inl e
       | Inr (handled, output1) \<Rightarrow>
     if handled then Inr output1
     else
     (case visitArguments arguments (indent (addLine (''(call $'' @ functionName) output1))
      of Inl e \<Rightarrow> Inl e
       | Inr output2 \<Rightarrow> Inr (addLine '')'' (unindent output2))))"
| "visit (Switch expression cases) output =
     (case switchDefaultcase cases of
        Inl err \<Rightarrow> Inl err
      | Inr defaultcase \<Rightarrow>
     (case expression of
        None \<Rightarrow> Inl NullPointerDereference
      | Some e \<Rightarrow>
     (case visit e (add ''(i64.eq '' (indent (addLine ''(if (result i64) '' output))) of
        Inl err \<Rightarrow> Inl err
      | Inr output1 \<Rightarrow>
     (case switchCaseValue cases (bangbang defaultcase) of
        Inl err \<Rightarrow> Inl err
      | Inr literal \<Rightarrow>
     (case visitLiteral literal (add '' '' output1) of
        Inl err \<Rightarrow> Inl err
      | Inr output2 \<Rightarrow>
     (case visitCaseBody cases (bangbang defaultcase)
             (indent (add ''(then '' (newLine (add '')'' output2)))) of
        Inl err \<Rightarrow> Inl err
      | Inr output3 \<Rightarrow>
     (if length cases = 2 then
        (case visitCaseBody cases defaultcase
                (indent (add ''(else '' (addLine '')'' (unindent output3)))) of
           Inl err \<Rightarrow> Inl err
         | Inr output4 \<Rightarrow>
             Inr (addLine '')'' (unindent (addLine '')'' (unindent output4)))))
      else Inr (addLine '')'' (unindent (addLine '')'' (unindent output3)))))))))))"
| "visit (Block block) output = visitBlock block output"
| "visitBlock block output =
     (case visitStatements block (indent (add ''(block '' output))
      of Inl e \<Rightarrow> Inl e
       | Inr output' \<Rightarrow> Inr (add '')'' (unindent output')))"
| "visitStatements (MkBlock sts) output = forEach sts output"
| "forEach [] output = Inr output"
| "forEach (statement # rest) output =
     (case visit statement output of Inl e \<Rightarrow> Inl e | Inr output' \<Rightarrow> forEach rest output')"
| "visitArguments [] output = Inr output"
| "visitArguments (statement # rest) output =
     (case visit statement (add '' '' output)
      of Inl e \<Rightarrow> Inl e
       | Inr output' \<Rightarrow> visitArguments rest (newLine output'))"
| "visitCaseBody [] i output = Inl VectorOutOfRange"
| "visitCaseBody (MkCase val body # rest) 0 output = visitBlock body output"
| "visitCaseBody (c # rest) (Suc i) output = visitCaseBody rest i output"
| "builtin instruction arguments output =
     (case arguments of
        [argument0, argument1] \<Rightarrow>
          (case visit argument0 (indent (add instruction output))
           of Inl e \<Rightarrow> Inl e
            | Inr output1 \<Rightarrow>
          (case visit argument1 (newLine output1)
           of Inl e \<Rightarrow> Inl e
            | Inr output2 \<Rightarrow> Inr (add '')'' (unindent output2))))
      | _ \<Rightarrow> Inl (InternalCompilerError []))"
| "resolveBuiltinFunction functionName arguments output =
     (if functionName = ''add64'' then
        (case builtin ''(i64.add '' arguments output
         of Inl e \<Rightarrow> Inl e | Inr output' \<Rightarrow> Inr (True, output'))
      else if functionName = ''sub64'' then
        (case builtin ''(i64.sub '' arguments output
         of Inl e \<Rightarrow> Inl e | Inr output' \<Rightarrow> Inr (True, output'))
      else if functionName = ''mul64'' then
        (case builtin ''(i64.mul '' arguments output
         of Inl e \<Rightarrow> Inl e | Inr output' \<Rightarrow> Inr (True, output'))
      else if functionName = ''gt64'' then
        (case builtin ''(i64.gt_u '' arguments output
         of Inl e \<Rightarrow> Inl e | Inr output' \<Rightarrow> Inr (True, output'))
      else Inr (False, output))"
  by pat_completeness auto

termination
  by (relation "measure (\<lambda>x. case x of
        Inl (Inl (Inl (statement, output))) \<Rightarrow> 2 * size statement
      | Inl (Inl (Inr (block, output))) \<Rightarrow> 2 * size block + 1
      | Inl (Inr (Inl (block, output))) \<Rightarrow> 2 * size block
      | Inl (Inr (Inr (sts, output))) \<Rightarrow> 2 * size_list size sts
      | Inr (Inl (Inl (sts, output))) \<Rightarrow> 2 * size_list size sts
      | Inr (Inl (Inr (cases, i, output))) \<Rightarrow> 2 * size_list size cases
      | Inr (Inr (Inl (instruction, sts, output))) \<Rightarrow> 2 * size_list size sts
      | Inr (Inr (Inr (functionName, sts, output))) \<Rightarrow> 2 * size_list size sts + 1)")
    auto

text \<open>
  The constructor \<^verbatim>\<open>Generator::Generator\<close>, run on the freshly constructed member
  \<^verbatim>\<open>output\<close>, on which no call has been made yet.
\<close>

definition Generator :: "Block \<Rightarrow> failure + IndentedWriter" where
  "Generator block =
     (case visitStatements block (indent (addLine ''(module '' []))
      of Inl e \<Rightarrow> Inl e
       | Inr output \<Rightarrow> Inr (addLine '')'' (unindent output)))"

text \<open>
  \<^verbatim>\<open>julia::WebAssembly::assemble\<close>: \<^verbatim>\<open>Generator(_block).assembly()\<close>, where
  \<^verbatim>\<open>assembly()\<close> returns \<^verbatim>\<open>output.format()\<close>.
\<close>

definition assemble :: "(IndentedWriter \<Rightarrow> string) \<Rightarrow> Block \<Rightarrow> failure + string" where
  "assemble format block =
     (case Generator block of Inl e \<Rightarrow> Inl e | Inr output \<Rightarrow> Inr (format output))"

section \<open>The calls a node adds\<close>

text \<open>
  The visitor only appends to the writer. \<open>prepend w r\<close> puts the calls \<open>w\<close> in front of
  the calls of a successful result \<open>r\<close>; \<open>lowered\<close> and its companions are the calls a
  node adds, obtained by visiting it on a writer without calls.
\<close>

definition prepend :: "IndentedWriter \<Rightarrow> failure + IndentedWriter \<Rightarrow> failure + IndentedWriter" where
  "prepend w r = (case r of Inl e \<Rightarrow> Inl e | Inr output \<Rightarrow> Inr (w @ output))"

definition lowered :: "Statement \<Rightarrow> failure + WriterCall list" where
  "lowered statement = visit statement []"

definition loweredLiteral :: "Literal \<Rightarrow> failure + WriterCall list" where
  "loweredLiteral literal = visitLiteral literal []"

definition loweredBlock :: "Block \<Rightarrow> failure + WriterCall list" where
  "loweredBlock block = visitBlock block []"

definition loweredStatements :: "Block \<Rightarrow> failure + WriterCall list" where
  "loweredStatements block = visitStatements block []"

definition loweredArguments :: "Statement list \<Rightarrow> failure + WriterCall list" where
  "loweredArguments arguments = visitArguments arguments []"

text \<open>
  The table of builtins as the specification gives it: callee name and target-native
  instruction. The source has no such table; \<open>resolveBuiltinFunction\<close> is compared
  with it below.
\<close>

definition builtins :: "(string \<times> string) list" where
  "builtins = [(''add64'', ''i64.add''), (''sub64'', ''i64.sub''),
               (''mul64'', ''i64.mul''), (''gt64'', ''i64.gt_u'')]"

text \<open>The supported type names as the specification lists them.\<close>

definition supported :: "Type \<Rightarrow> bool" where
  "supported type =
     (type \<in> {''bool'', ''u8'', ''s8'', ''u32'', ''s32'', ''u64'', ''s64''})"

section \<open>The visitor only appends\<close>

lemmas writer_defs = add_def addLine_def newLine_def indent_def unindent_def

lemmas lowered_defs =
  lowered_def loweredLiteral_def loweredBlock_def loweredStatements_def loweredArguments_def

lemma prepend_simps [simp]:
  "prepend w (Inl e) = Inl e"
  "prepend w (Inr x) = Inr (w @ x)"
  by (simp_all add: prepend_def)

lemma writer_append [simp]:
  "add s (w @ w') = w @ add s w'"
  "addLine s (w @ w') = w @ addLine s w'"
  "newLine (w @ w') = w @ newLine w'"
  "indent (w @ w') = w @ indent w'"
  "unindent (w @ w') = w @ unindent w'"
  by (simp_all add: writer_defs)

lemma visitLiteral_append: "visitLiteral l (w @ w') = prepend w (visitLiteral l w')"
  by (simp add: visitLiteral_def and_then_def split: sum.splits)

lemma visitParameters_append:
  "visitParameters ps (w @ w') = prepend w (visitParameters ps w')"
  by (induction ps arbitrary: w') (simp_all add: and_then_def split: sum.splits)

lemma visitReturns_append:
  "visitReturns rs n (w @ w') =
     (case visitReturns rs n w' of Inl e \<Rightarrow> Inl e | Inr (n', out) \<Rightarrow> Inr (n', w @ out))"
  by (induction rs arbitrary: w' n) (simp_all add: and_then_def split: sum.splits)

text \<open>
  Whatever the writer holds already is left in place, and the calls added do not depend on
  it. The proof follows the recursion of the visitor.
\<close>

lemma visit_append:
  "visit s (w @ w') = prepend w (visit s w')"
  "visitBlock b (w @ w') = prepend w (visitBlock b w')"
  "visitStatements b (w @ w') = prepend w (visitStatements b w')"
  "forEach ss (w @ w') = prepend w (forEach ss w')"
  "visitArguments ss (w @ w') = prepend w (visitArguments ss w')"
  "visitCaseBody cs i (w @ w') = prepend w (visitCaseBody cs i w')"
  "builtin instr ss (w @ w') = prepend w (builtin instr ss w')"
  "resolveBuiltinFunction n ss (w @ w') =
     (case resolveBuiltinFunction n ss w' of Inl e \<Rightarrow> Inl e
      | Inr (handled, out) \<Rightarrow> Inr (handled, w @ out))"
proof (induction s w' and b w' and b w' and ss w' and ss w' and cs i w' and instr ss w'
    and n ss w'
    rule: visit_visitBlock_visitStatements_forEach_visitArguments_visitCaseBody_builtin_resolveBuiltinFunction.induct)
  case (9 name arguments returns body out)
  then show ?case
    by (auto simp: visitParameters_append visitReturns_append split: sum.splits prod.splits)
next
  case (11 expression cases out)
  then show ?case
    by (auto simp: visitLiteral_append split: sum.splits option.splits)
next
  case (22 instruction arguments out)
  then show ?case by (auto split: sum.splits list.splits)
qed (auto simp: visitLiteral_append split: sum.splits option.splits prod.splits)

lemma from_empty:
  "w \<noteq> [] \<Longrightarrow> visit s w = prepend w (visit s [])"
  "w \<noteq> [] \<Longrightarrow> visitBlock b w = prepend w (visitBlock b [])"
  "w \<noteq> [] \<Longrightarrow> visitStatements b w = prepend w (visitStatements b [])"
  "w \<noteq> [] \<Longrightarrow> forEach ss w = prepend w (forEach ss [])"
  "w \<noteq> [] \<Longrightarrow> visitArguments ss w = prepend w (visitArguments ss [])"
  "w \<noteq> [] \<Longrightarrow> visitCaseBody cs i w = prepend w (visitCaseBody cs i [])"
  "w \<noteq> [] \<Longrightarrow> visitLiteral l w = prepend w (visitLiteral l [])"
  "w \<noteq> [] \<Longrightarrow> visitParameters ps w = prepend w (visitParameters ps [])"
  using visit_append(1) [of s w "[]"] visit_append(2) [of b w "[]"]
    visit_append(3) [of b w "[]"] visit_append(4) [of ss w "[]"]
    visit_append(5) [of ss w "[]"] visit_append(6) [of cs i w "[]"]
    visitLiteral_append [of l w "[]"] visitParameters_append [of ps w "[]"]
  by simp_all

lemma builtin_two:
  "builtin instruction [argument0, argument1] w =
     (case visit argument0 [] of Inl e \<Rightarrow> Inl e | Inr calls0 \<Rightarrow>
      case visit argument1 [] of Inl e \<Rightarrow> Inl e | Inr calls1 \<Rightarrow>
        Inr (w @ [Add instruction, Indent] @ calls0 @ [NewLine] @ calls1 @
             [Unindent, Add '')'']))"
  by (cases "visit argument0 []"; cases "visit argument1 []";
      simp add: from_empty writer_defs)

section \<open>Types and literals\<close>

lemmas eval_defs = lowered_defs switchDefaultcase_def switchCaseValue_def and_then_def
  deref_def bangbang_def visitLiteral_def convertType_def supportedTypes_def writer_defs
  Generator_def

lemma convertType_supported: "supported type \<Longrightarrow> convertType type = Inr ''i64''"
  by (auto simp: supported_def convertType_def supportedTypes_def)

lemma convertType_Inr: "convertType type = Inr t \<Longrightarrow> t = ''i64''"
  by (simp add: convertType_def split: if_splits)

text \<open>
  C6, as the specification states it, fails at the empty type name: it is outside the
  supported set, yet the failure is not the unsupported-type condition carrying the name
  but the assertion that only Julia input (where every type is written out) is supported.
\<close>

theorem convertType_empty_counterexample:
  "\<not> supported [] \<and>
   convertType [] = Inl (InternalCompilerError ''Only Julia input is supported.'') \<and>
   convertType [] \<noteq> Inl (InternalCompilerError (''Type ('' @ [] @ '') not supported yet.''))"
  by (simp add: supported_def convertType_def)

text \<open>
  C6, amended: for every type name in \<open>{bool, u8, s8, u32, s32, u64, s64}\<close> the type
  mapper returns \<open>i64\<close>; for every non-empty type name outside that set it fails with the
  unsupported-type condition carrying that name; for the empty type name it fails with
  the condition that only Julia input is supported.
\<close>

theorem convertType_cases:
  "(supported type \<longrightarrow> convertType type = Inr ''i64'') \<and>
   (\<not> supported type \<and> type \<noteq> [] \<longrightarrow>
      convertType type =
        Inl (InternalCompilerError (''Type ('' @ type @ '') not supported yet.''))) \<and>
   convertType [] = Inl (InternalCompilerError ''Only Julia input is supported.'')"
  by (simp add: supported_def convertType_def supportedTypes_def)

theorem convertType_cases_witness:
  "supported ''u32'' \<and> convertType ''u32'' = Inr ''i64'' \<and>
   \<not> supported ''u256'' \<and>
   convertType ''u256'' = Inl (InternalCompilerError ''Type (u256) not supported yet.'')"
  using convertType_cases [of "''u32''"] convertType_cases [of "''u256''"]
  by (simp add: supported_def)

text \<open>
  C7, as the specification states it, fails at a boolean literal whose type is not
  supported: the visitor maps the literal's type before it emits the constant, for
  boolean literals as for numeric ones.
\<close>

theorem literal_boolean_unsupported_type_counterexample:
  "loweredLiteral (MkLiteral Boolean ''true'' ''u256'') =
     Inl (InternalCompilerError ''Type (u256) not supported yet.'') \<and>
   loweredLiteral (MkLiteral Boolean ''true'' ''u256'') \<noteq> Inr [Add ''(i64.const 1)'']"
  by (simp add: eval_defs)

text \<open>
  C7, amended: for every literal of numeric kind with a supported type, lowering adds a
  typed constant carrying the literal's value text verbatim; for every literal of boolean
  kind with a supported type, it adds the typed constant 1 when the value text is
  \<open>true\<close> and the typed constant 0 otherwise (so for \<open>false\<close>); a literal of the remaining
  kind fails.
\<close>

theorem literal_lowering:
  "(lit_kind literal = Number \<and> supported (lit_type literal) \<longrightarrow>
      loweredLiteral literal = Inr [Add (''(i64.const '' @ lit_value literal @ '')'')]) \<and>
   (lit_kind literal = Boolean \<and> supported (lit_type literal) \<longrightarrow>
      loweredLiteral literal =
        Inr [Add (if lit_value literal = ''true'' then ''(i64.const 1)''
                  else ''(i64.const 0)'')]) \<and>
   (lit_kind literal = String \<longrightarrow>
      loweredLiteral literal =
        Inl (InternalCompilerError ''Non-number literals not supported.''))"
  by (cases "lit_kind literal")
     (simp_all add: loweredLiteral_def visitLiteral_def and_then_def writer_defs
        convertType_supported)

theorem literal_lowering_witness:
  "loweredLiteral (MkLiteral Number ''5'' ''u64'') = Inr [Add ''(i64.const 5)''] \<and>
   loweredLiteral (MkLiteral Boolean ''true'' ''bool'') = Inr [Add ''(i64.const 1)''] \<and>
   loweredLiteral (MkLiteral Boolean ''false'' ''bool'') = Inr [Add ''(i64.const 0)''] \<and>
   loweredLiteral (MkLiteral String ''abc'' ''u64'') =
     Inl (InternalCompilerError ''Non-number literals not supported.'')"
  using literal_lowering [of "MkLiteral Number ''5'' ''u64''"]
    literal_lowering [of "MkLiteral Boolean ''true'' ''bool''"]
    literal_lowering [of "MkLiteral Boolean ''false'' ''bool''"]
    literal_lowering [of "MkLiteral String ''abc'' ''u64''"]
  by (simp add: supported_def)

section \<open>Declarations and assignments\<close>

text \<open>
  C10: lowering a variable declaration or an assignment dereferences the node's value
  without a presence check. With the value absent, an assignment stops at the null
  dereference, and a declaration does so as soon as its own two checks (one variable, a
  supported type) have passed; no diagnostic is raised for the absent value, and no text
  results. With the value present, the outcome is that of lowering the value, wrapped in
  the local write.
\<close>

theorem absent_value_is_dereferenced:
  "visit (Assignment variableName None) output = Inl NullPointerDereference \<and>
   visit (VariableDeclaration variables None) output =
     (if length variables \<noteq> 1
        then Inl (InternalCompilerError ''Tuples not supported yet.'')
      else case convertType (tn_type (hd variables)) of
             Inl e \<Rightarrow> Inl e
           | Inr t \<Rightarrow> Inl NullPointerDereference) \<and>
   lowered (Assignment variableName (Some v)) =
     (case lowered v of
        Inl e \<Rightarrow> Inl e
      | Inr calls \<Rightarrow>
          Inr ([AddLine (''(set_local $'' @ variableName @ '' ''), Indent] @ calls @
               [Unindent, Add '')'', NewLine])) \<and>
   lowered (VariableDeclaration [variable] (Some v)) =
     (case convertType (tn_type variable) of
        Inl e \<Rightarrow> Inl e
      | Inr t \<Rightarrow>
     (case lowered v of
        Inl e \<Rightarrow> Inl e
      | Inr calls \<Rightarrow>
          Inr ([AddLine (''(local $'' @ tn_name variable @ '' i64)''),
                AddLine (''(set_local $'' @ tn_name variable @ '' ''), Indent] @ calls @
               [Unindent, Add '')'', NewLine])))"
  unfolding lowered_defs
  by (cases "visit v []"; cases "convertType (tn_type variable)";
      cases "convertType (tn_type (hd variables))")
     (simp_all add: from_empty writer_defs convertType_Inr)

theorem absent_value_is_dereferenced_witness:
  "visit (Assignment ''x'' None) [] = Inl NullPointerDereference \<and>
   visit (VariableDeclaration [MkTypedName ''x'' ''u64''] None) [] =
     Inl NullPointerDereference \<and>
   lowered (Assignment ''x'' (Some (Identifier ''y''))) =
     Inr [AddLine ''(set_local $x '', Indent, Add ''(get_local $y)'', Unindent, Add '')'',
          NewLine] \<and>
   lowered (VariableDeclaration [MkTypedName ''x'' ''u64''] (Some (Identifier ''y''))) =
     Inr [AddLine ''(local $x i64)'', AddLine ''(set_local $x '', Indent,
          Add ''(get_local $y)'', Unindent, Add '')'', NewLine]"
  using absent_value_is_dereferenced
    [of "''x''" "[]" "[MkTypedName ''x'' ''u64'']" "Identifier ''y''" "MkTypedName ''x'' ''u64''"]
  by (simp add: eval_defs)

section \<open>Function calls\<close>

lemma visitArguments_Cons:
  "visitArguments (argument # rest) w =
     (case visit argument [] of Inl e \<Rightarrow> Inl e | Inr calls \<Rightarrow>
      case visitArguments rest [] of Inl e \<Rightarrow> Inl e
      | Inr calls' \<Rightarrow> Inr (w @ [Add '' ''] @ calls @ [NewLine] @ calls'))"
  by (cases "visit argument []"; cases "visitArguments rest []";
      simp add: from_empty writer_defs)

text \<open>
  C4: a call of \<open>add64\<close>, \<open>sub64\<close>, \<open>mul64\<close> or \<open>gt64\<close> with exactly two arguments is
  lowered to the native instruction of the table (\<open>i64.add\<close>, \<open>i64.sub\<close>, \<open>i64.mul\<close>,
  \<open>i64.gt_u\<close>) wrapping the calls of the first argument and then those of the second, with
  no call instruction; a call of any other name is lowered to a call instruction naming
  the callee that wraps the lowered arguments in their order. A failure of an argument is
  the failure of the call.
\<close>

theorem function_call_lowering:
  "((functionName, instruction) \<in> set builtins \<longrightarrow>
      lowered (FunctionCall functionName [argument0, argument1]) =
        (case lowered argument0 of
           Inl e \<Rightarrow> Inl e
         | Inr calls0 \<Rightarrow>
        (case lowered argument1 of
           Inl e \<Rightarrow> Inl e
         | Inr calls1 \<Rightarrow>
             Inr ([Add (''('' @ instruction @ '' ''), Indent] @ calls0 @ [NewLine] @ calls1 @
                  [Unindent, Add '')''])))) \<and>
   (functionName \<notin> fst ` set builtins \<longrightarrow>
      lowered (FunctionCall functionName arguments) =
        (case loweredArguments arguments of
           Inl e \<Rightarrow> Inl e
         | Inr calls \<Rightarrow>
             Inr ([AddLine (''(call $'' @ functionName), Indent] @ calls @
                  [Unindent, AddLine '')'']))) \<and>
   loweredArguments [] = Inr [] \<and>
   loweredArguments (argument # rest) =
     (case lowered argument of
        Inl e \<Rightarrow> Inl e
      | Inr calls \<Rightarrow>
     (case loweredArguments rest of
        Inl e \<Rightarrow> Inl e
      | Inr calls' \<Rightarrow> Inr ([Add '' ''] @ calls @ [NewLine] @ calls')))"
proof (intro conjI impI)
  assume "(functionName, instruction) \<in> set builtins"
  then consider "functionName = ''add64''" "instruction = ''i64.add''"
    | "functionName = ''sub64''" "instruction = ''i64.sub''"
    | "functionName = ''mul64''" "instruction = ''i64.mul''"
    | "functionName = ''gt64''" "instruction = ''i64.gt_u''"
    by (auto simp: builtins_def)
  then show "lowered (FunctionCall functionName [argument0, argument1]) =
        (case lowered argument0 of
           Inl e \<Rightarrow> Inl e
         | Inr calls0 \<Rightarrow>
        (case lowered argument1 of
           Inl e \<Rightarrow> Inl e
         | Inr calls1 \<Rightarrow>
             Inr ([Add (''('' @ instruction @ '' ''), Indent] @ calls0 @ [NewLine] @ calls1 @
                  [Unindent, Add '')''])))"
    unfolding lowered_defs
    by cases
      (cases "visit argument0 []"; cases "visit argument1 []";
        simp add: builtin_two del: builtin.simps)+
next
  assume "functionName \<notin> fst ` set builtins"
  then have "functionName \<noteq> ''add64''" "functionName \<noteq> ''sub64''"
    "functionName \<noteq> ''mul64''" "functionName \<noteq> ''gt64''"
    by (auto simp: builtins_def)
  then show "lowered (FunctionCall functionName arguments) =
        (case loweredArguments arguments of
           Inl e \<Rightarrow> Inl e
         | Inr calls \<Rightarrow>
             Inr ([AddLine (''(call $'' @ functionName), Indent] @ calls @
                  [Unindent, AddLine '')'']))"
    unfolding lowered_defs
    by (cases "visitArguments arguments []") (simp_all add: from_empty writer_defs)
next
  show "loweredArguments [] = Inr []" by (simp add: lowered_defs)
next
  show "loweredArguments (argument # rest) =
     (case lowered argument of
        Inl e \<Rightarrow> Inl e
      | Inr calls \<Rightarrow>
     (case loweredArguments rest of
        Inl e \<Rightarrow> Inl e
      | Inr calls' \<Rightarrow> Inr ([Add '' ''] @ calls @ [NewLine] @ calls')))"
    unfolding lowered_defs visitArguments_Cons
    by (cases "visit argument []"; cases "visitArguments rest []"; simp)
qed

theorem function_call_lowering_witness:
  "lowered (FunctionCall ''add64'' [Identifier ''a'', Identifier ''b'']) =
     Inr [Add ''(i64.add '', Indent, Add ''(get_local $a)'', NewLine, Add ''(get_local $b)'',
          Unindent, Add '')''] \<and>
   lowered (FunctionCall ''gt64'' [Identifier ''a'', Identifier ''b'']) =
     Inr [Add ''(i64.gt_u '', Indent, Add ''(get_local $a)'', NewLine, Add ''(get_local $b)'',
          Unindent, Add '')''] \<and>
   lowered (FunctionCall ''f'' [Identifier ''a'', Identifier ''b'']) =
     Inr [AddLine ''(call $f'', Indent, Add '' '', Add ''(get_local $a)'', NewLine,
          Add '' '', Add ''(get_local $b)'', NewLine, Unindent, AddLine '')'']"
  using function_call_lowering
      [of "''add64''" "''i64.add''" "Identifier ''a''" "Identifier ''b''"]
    function_call_lowering
      [of "''gt64''" "''i64.gt_u''" "Identifier ''a''" "Identifier ''b''"]
    function_call_lowering
      [of "''f''" "''''" "Identifier ''a''" "Identifier ''b''"
          "[Identifier ''a'', Identifier ''b'']"]
  by (simp add: builtins_def eval_defs)

section \<open>Function definitions\<close>

lemma visitParameters_Cons:
  "visitParameters (a # arguments) [] =
     (case convertType (tn_type a) of Inl e \<Rightarrow> Inl e | Inr t \<Rightarrow>
      case visitParameters arguments [] of Inl e \<Rightarrow> Inl e
      | Inr ps \<Rightarrow> Inr (AddLine (''(param $'' @ tn_name a @ '' i64)'') # ps))"
proof (cases "convertType (tn_type a)")
  case (Inl e)
  then show ?thesis by (simp add: and_then_def)
next
  case (Inr t)
  then have "convertType (tn_type a) = Inr ''i64''"
    using convertType_Inr by blast
  then show ?thesis
    by (cases "visitParameters arguments []") (simp_all add: and_then_def from_empty writer_defs)
qed

lemma visitParameters_calls:
  "visitParameters arguments [] = Inr params \<Longrightarrow>
     params = map (\<lambda>a. AddLine (''(param $'' @ tn_name a @ '' i64)'')) arguments"
proof (induction arguments arbitrary: params)
  case Nil
  then show ?case by simp
next
  case (Cons a arguments)
  from Cons.prems obtain ps where ps: "visitParameters arguments [] = Inr ps"
    and params: "params = AddLine (''(param $'' @ tn_name a @ '' i64)'') # ps"
    unfolding visitParameters_Cons by (simp split: sum.splits)
  from Cons.IH [OF ps] params show ?case by simp
qed

lemma function_definition_one_return:
  "tn_name r \<noteq> [] \<Longrightarrow>
     lowered (FunctionDefinition name arguments [r] body) =
       (case visitParameters arguments [] of Inl e \<Rightarrow> Inl e | Inr params \<Rightarrow>
        case convertType (tn_type r) of Inl e \<Rightarrow> Inl e | Inr t \<Rightarrow>
        case loweredStatements body of Inl e \<Rightarrow> Inl e | Inr calls \<Rightarrow>
          Inr ([NewLine, AddLine (''(func $'' @ name @ '' ''), Indent] @ params @
               [AddLine ''(result i64)'', AddLine (''(local $'' @ tn_name r @ '' i64)''),
                NewLine, NewLine] @ calls @
               [NewLine, NewLine, AddLine (''(return $'' @ tn_name r @ '')''), Unindent,
                AddLine '')'', NewLine]))"
  unfolding lowered_defs
  by (cases "visitParameters arguments []"; cases "convertType (tn_type r)";
      cases "visitStatements body []")
     (simp_all add: from_empty writer_defs and_then_def convertType_Inr)

lemma function_definition_no_return:
  "lowered (FunctionDefinition name arguments [] body) =
       (case visitParameters arguments [] of Inl e \<Rightarrow> Inl e | Inr params \<Rightarrow>
        case loweredStatements body of Inl e \<Rightarrow> Inl e | Inr calls \<Rightarrow>
          Inr ([NewLine, AddLine (''(func $'' @ name @ '' ''), Indent] @ params @
               [NewLine, NewLine] @ calls @
               [NewLine, NewLine, Unindent, AddLine '')'', NewLine]))"
  unfolding lowered_defs
  by (cases "visitParameters arguments []"; cases "visitStatements body []")
     (simp_all add: from_empty writer_defs)

lemma function_definition_many_returns:
  "1 < length returns \<Longrightarrow>
     lowered (FunctionDefinition name arguments returns body) =
       (case visitParameters arguments [] of Inl e \<Rightarrow> Inl e
        | Inr params \<Rightarrow>
            Inl (InternalCompilerError ''Multiple return values not supported yet.''))"
  unfolding lowered_defs
  by (cases "visitParameters arguments []") (simp_all add: from_empty writer_defs)

lemma frame_one_result:
  "visitParameters arguments [] = Inr params \<Longrightarrow>
   count_list ([NewLine, AddLine (''(func $'' @ name @ '' ''), Indent] @ params @
               [AddLine ''(result i64)'', AddLine (''(local $'' @ rn @ '' i64)''),
                NewLine, NewLine]) (AddLine ''(result i64)'') = 1"
proof -
  assume "visitParameters arguments [] = Inr params"
  then have "params = map (\<lambda>a. AddLine (''(param $'' @ tn_name a @ '' i64)'')) arguments"
    by (rule visitParameters_calls)
  then have "AddLine ''(result i64)'' \<notin> set params" by auto
  then have "count_list params (AddLine ''(result i64)'') = 0" by simp
  then show ?thesis by simp
qed

lemma function_definition_frame:
  "lowered (FunctionDefinition name arguments returns body) =
     (case visitParameters arguments [] of
        Inl e \<Rightarrow> Inl e
      | Inr params \<Rightarrow>
     (if \<not> length returns \<le> 1
        then Inl (InternalCompilerError ''Multiple return values not supported yet.'')
      else
     (case visitReturns returns [] [] of
        Inl e \<Rightarrow> Inl e
      | Inr (returnName, declarations) \<Rightarrow>
     (case loweredStatements body of
        Inl e \<Rightarrow> Inl e
      | Inr calls \<Rightarrow>
          Inr ([NewLine, AddLine (''(func $'' @ name @ '' ''), Indent] @ params @
               declarations @ [NewLine, NewLine] @ calls @ [NewLine, NewLine] @
               (if returnName \<noteq> [] then [AddLine (''(return $'' @ returnName @ '')'')]
                else []) @
               [Unindent, AddLine '')'', NewLine])))))"
proof (cases "visitParameters arguments []")
  case (Inl e)
  then show ?thesis by (simp add: lowered_defs from_empty writer_defs)
next
  case params: (Inr params)
  show ?thesis
  proof (cases "length returns \<le> 1")
    case False
    with params show ?thesis by (simp add: lowered_defs from_empty writer_defs)
  next
    case True
    have r: "visitReturns returns []
               ([NewLine, AddLine (''(func $'' @ name @ '' ''), Indent] @ params) =
             (case visitReturns returns [] [] of Inl e \<Rightarrow> Inl e
              | Inr (n', out) \<Rightarrow>
                  Inr (n', ([NewLine, AddLine (''(func $'' @ name @ '' ''), Indent] @ params) @ out))"
      using visitReturns_append
        [of returns "[]" "[NewLine, AddLine (''(func $'' @ name @ '' ''), Indent] @ params" "[]"]
      by simp
    show ?thesis
    proof (cases "visitReturns returns [] []")
      case (Inl e)
      with params True r show ?thesis by (simp add: lowered_defs from_empty writer_defs)
    next
      case (Inr p)
      obtain returnName declarations where p: "p = (returnName, declarations)"
        by (cases p)
      with Inr params True r show ?thesis
        by (cases "visitStatements body []"; cases "returnName = []")
           (simp_all add: lowered_defs from_empty writer_defs)
    qed
  qed
qed

text \<open>
  C5, as the specification states it, fails at a function definition whose body holds
  another function definition: the text emitted for the outer function includes the text
  of its body, and with it the result declaration and the return of the inner function,
  so it contains two result declarations.
\<close>

theorem function_definition_nested_counterexample:
  "lowered (FunctionDefinition ''f'' [] [MkTypedName ''r'' ''u64'']
      (MkBlock [FunctionDefinition ''g'' [] [MkTypedName ''s'' ''u64''] (MkBlock [])])) =
     Inr [NewLine, AddLine ''(func $f '', Indent, AddLine ''(result i64)'',
          AddLine ''(local $r i64)'', NewLine, NewLine,
          NewLine, AddLine ''(func $g '', Indent, AddLine ''(result i64)'',
          AddLine ''(local $s i64)'', NewLine, NewLine, NewLine, NewLine,
          AddLine ''(return $s)'', Unindent, AddLine '')'', NewLine,
          NewLine, NewLine, AddLine ''(return $r)'', Unindent, AddLine '')'', NewLine] \<and>
   count_list
     [NewLine, AddLine ''(func $f '', Indent, AddLine ''(result i64)'',
      AddLine ''(local $r i64)'', NewLine, NewLine,
      NewLine, AddLine ''(func $g '', Indent, AddLine ''(result i64)'',
      AddLine ''(local $s i64)'', NewLine, NewLine, NewLine, NewLine,
      AddLine ''(return $s)'', Unindent, AddLine '')'', NewLine,
      NewLine, NewLine, AddLine ''(return $r)'', Unindent, AddLine '')'', NewLine]
     (AddLine ''(result i64)'') = 2"
  by (simp add: eval_defs)

text \<open>
  C5, amended: for every function definition with exactly one return binding, named as
  every identifier is by a string that is not empty, the calls for the function itself,
  around those of its body, are: the opening of the function, one parameter declaration
  for each parameter, exactly one result declaration, the declaration of a local with the
  return binding's name and the mapped type \<open>i64\<close>, and, after the body, exactly one return
  of that local, followed only by the closing of the function. A failure of the type
  mapper or of the body is the failure of the definition. A function definition with more
  than one return binding fails: with the diagnostic of the type mapper when a parameter
  type is not supported, and else with the one for multiple return values.
\<close>

theorem function_definition_return_binding:
  "(tn_name r \<noteq> [] \<longrightarrow>
      lowered (FunctionDefinition name arguments [r] body) =
        (case visitParameters arguments [] of
           Inl e \<Rightarrow> Inl e
         | Inr params \<Rightarrow>
        (case convertType (tn_type r) of
           Inl e \<Rightarrow> Inl e
         | Inr t \<Rightarrow>
        (case loweredStatements body of
           Inl e \<Rightarrow> Inl e
         | Inr calls \<Rightarrow>
             Inr ([NewLine, AddLine (''(func $'' @ name @ '' ''), Indent] @ params @
                  [AddLine ''(result i64)'', AddLine (''(local $'' @ tn_name r @ '' i64)''),
                   NewLine, NewLine] @ calls @
                  [NewLine, NewLine, AddLine (''(return $'' @ tn_name r @ '')''), Unindent,
                   AddLine '')'', NewLine]))))) \<and>
   (visitParameters arguments [] = Inr params \<longrightarrow>
      params = map (\<lambda>a. AddLine (''(param $'' @ tn_name a @ '' i64)'')) arguments \<and>
      count_list
        ([NewLine, AddLine (''(func $'' @ name @ '' ''), Indent] @ params @
         [AddLine ''(result i64)'', AddLine (''(local $'' @ tn_name r @ '' i64)''),
          NewLine, NewLine])
        (AddLine ''(result i64)'') = 1) \<and>
   (1 < length returns \<longrightarrow>
      lowered (FunctionDefinition name arguments returns body) =
        (case visitParameters arguments [] of
           Inl e \<Rightarrow> Inl e
         | Inr params \<Rightarrow>
             Inl (InternalCompilerError ''Multiple return values not supported yet.'')))"
  using function_definition_one_return [of r name arguments body]
    visitParameters_calls [of arguments params]
    frame_one_result [of arguments params name "tn_name r"]
    function_definition_many_returns [of returns name arguments body]
  by blast

theorem function_definition_return_binding_witness:
  "lowered (FunctionDefinition ''f'' [MkTypedName ''x'' ''u64''] [MkTypedName ''r'' ''u64'']
      (MkBlock [Assignment ''r'' (Some (Identifier ''x''))])) =
     Inr [NewLine, AddLine ''(func $f '', Indent, AddLine ''(param $x i64)'',
          AddLine ''(result i64)'', AddLine ''(local $r i64)'', NewLine, NewLine,
          AddLine ''(set_local $r '', Indent, Add ''(get_local $x)'', Unindent, Add '')'',
          NewLine, NewLine, NewLine, AddLine ''(return $r)'', Unindent, AddLine '')'',
          NewLine] \<and>
   visitParameters [MkTypedName ''x'' ''u64''] [] = Inr [AddLine ''(param $x i64)''] \<and>
   lowered (FunctionDefinition ''f'' [MkTypedName ''x'' ''u64'']
      [MkTypedName ''r'' ''u64'', MkTypedName ''s'' ''u64''] (MkBlock [])) =
     Inl (InternalCompilerError ''Multiple return values not supported yet.'')"
  using function_definition_return_binding
    [of "MkTypedName ''r'' ''u64''" "''f''" "[MkTypedName ''x'' ''u64'']"
        "MkBlock [Assignment ''r'' (Some (Identifier ''x''))]" "[AddLine ''(param $x i64)'']"
        "[MkTypedName ''r'' ''u64'', MkTypedName ''s'' ''u64'']"]
  by (simp add: eval_defs)

section \<open>Blocks\<close>

lemma forEach_Cons:
  "forEach (statement # rest) [] =
     (case visit statement [] of Inl e \<Rightarrow> Inl e | Inr calls \<Rightarrow>
      case forEach rest [] of Inl e \<Rightarrow> Inl e
      | Inr calls' \<Rightarrow> Inr (calls @ calls'))"
proof (cases "visit statement []")
  case (Inl e)
  then show ?thesis by simp
next
  case (Inr calls)
  then show ?thesis
    using visit_append(4) [of rest calls "[]"]
    by (cases "forEach rest []") simp_all
qed

section \<open>Switch\<close>

text \<open>
  What the visitor does on the shapes that pass its assertions. The case it takes the
  comparison value and the first branch from is \<^verbatim>\<open>cases[!!defaultcase]\<close>, the case it
  takes the second branch from is \<^verbatim>\<open>cases[defaultcase]\<close>; \<^verbatim>\<open>defaultcase\<close> is 0 or 1, so both
  are the same case: the first one if it has a value, and the second one otherwise. The
  body of the other case does not occur in the result.
\<close>

lemma switch_first_case_valued:
  "lowered (Switch (Some e) [MkCase (Some l) b1, MkCase v b0]) =
     (case lowered e of Inl err \<Rightarrow> Inl err | Inr ce \<Rightarrow>
      case loweredLiteral l of Inl err \<Rightarrow> Inl err | Inr cl \<Rightarrow>
      case loweredBlock b1 of Inl err \<Rightarrow> Inl err | Inr c1 \<Rightarrow>
        Inr ([AddLine ''(if (result i64) '', Indent, Add ''(i64.eq ''] @ ce @ [Add '' ''] @ cl @
             [Add '')'', NewLine, Add ''(then '', Indent] @ c1 @ [Unindent, AddLine '')'',
              Add ''(else '', Indent] @ c1 @ [Unindent, AddLine '')'', Unindent, AddLine '')'']))"
  unfolding lowered_defs
  by (cases "visit e []"; cases "visitLiteral l []"; cases "visitBlock b1 []";
      simp add: from_empty writer_defs switchDefaultcase_def switchCaseValue_def and_then_def
        deref_def bangbang_def del: visitBlock.simps)

lemma switch_second_case_valued:
  "lowered (Switch (Some e) [MkCase None b0, MkCase (Some l) b1]) =
     (case lowered e of Inl err \<Rightarrow> Inl err | Inr ce \<Rightarrow>
      case loweredLiteral l of Inl err \<Rightarrow> Inl err | Inr cl \<Rightarrow>
      case loweredBlock b1 of Inl err \<Rightarrow> Inl err | Inr c1 \<Rightarrow>
        Inr ([AddLine ''(if (result i64) '', Indent, Add ''(i64.eq ''] @ ce @ [Add '' ''] @ cl @
             [Add '')'', NewLine, Add ''(then '', Indent] @ c1 @ [Unindent, AddLine '')'',
              Add ''(else '', Indent] @ c1 @ [Unindent, AddLine '')'', Unindent, AddLine '')'']))"
  unfolding lowered_defs
  by (cases "visit e []"; cases "visitLiteral l []"; cases "visitBlock b1 []";
      simp add: from_empty writer_defs switchDefaultcase_def switchCaseValue_def and_then_def
        deref_def bangbang_def del: visitBlock.simps)

lemma switch_single_valued_case:
  "lowered (Switch (Some e) [MkCase (Some l) b1]) =
     (case lowered e of Inl err \<Rightarrow> Inl err | Inr ce \<Rightarrow>
      case loweredLiteral l of Inl err \<Rightarrow> Inl err | Inr cl \<Rightarrow>
      case loweredBlock b1 of Inl err \<Rightarrow> Inl err | Inr c1 \<Rightarrow>
        Inr ([AddLine ''(if (result i64) '', Indent, Add ''(i64.eq ''] @ ce @ [Add '' ''] @ cl @
             [Add '')'', NewLine, Add ''(then '', Indent] @ c1 @ [Unindent, AddLine '')'',
              Unindent, AddLine '')'']))"
  unfolding lowered_defs
  by (cases "visit e []"; cases "visitLiteral l []"; cases "visitBlock b1 []";
      simp add: from_empty writer_defs switchDefaultcase_def switchCaseValue_def and_then_def
        deref_def bangbang_def del: visitBlock.simps)

lemma switch_more_than_two_cases:
  "2 < length cases \<Longrightarrow> visit (Switch expression cases) output = Inl (InternalCompilerError [])"
  by (simp add: switchDefaultcase_def)

lemma switch_two_default_cases:
  "visit (Switch expression [MkCase None b0, MkCase None b1]) output =
     Inl (InternalCompilerError [])"
  by (simp add: switchDefaultcase_def and_then_def)

lemma visitCaseBody_at:
  "visitCaseBody cases i [] =
     (case at cases i of Inl e \<Rightarrow> Inl e | Inr c \<Rightarrow> loweredBlock (case_body c))"
proof (induction cases arbitrary: i)
  case Nil
  then show ?case by simp
next
  case (Cons c cases)
  then show ?case by (cases i; cases c) (simp_all add: loweredBlock_def del: visitBlock.simps)
qed

lemma switch_translated_shapes:
  assumes "lowered (Switch expression cases) = Inr calls"
  shows "\<exists>e l b1. expression = Some e \<and>
           (cases = [MkCase (Some l) b1] \<or>
            (\<exists>v b0. cases = [MkCase (Some l) b1, MkCase v b0]) \<or>
            (\<exists>b0. cases = [MkCase None b0, MkCase (Some l) b1]))"
proof -
  from assms obtain d where d: "switchDefaultcase cases = Inr d"
    by (cases "switchDefaultcase cases") (simp_all add: lowered_def)
  from assms d obtain e where e: "expression = Some e"
    by (cases expression) (simp_all add: lowered_def)
  from d have len: "length cases \<le> 2"
    by (simp add: switchDefaultcase_def split: if_splits)
  show ?thesis
  proof (cases cases)
    case Nil
    with d show ?thesis by (simp add: switchDefaultcase_def and_then_def)
  next
    case (Cons c0 rest)
    obtain v0 b0 where c0: "c0 = MkCase v0 b0" by (cases c0)
    show ?thesis
    proof (cases rest)
      case Nil
      with Cons c0 d e show ?thesis
        by (cases v0) (simp_all add: switchDefaultcase_def and_then_def)
    next
      case rest: (Cons c1 rest')
      with Cons len have rest': "rest' = []" by simp
      obtain v1 b1 where c1: "c1 = MkCase v1 b1" by (cases c1)
      from Cons rest rest' c0 c1 d e show ?thesis
        by (cases v0; cases v1) (simp_all add: switchDefaultcase_def and_then_def)
    qed
  qed
qed

text \<open>
  C1 says that for a switch with one value-bearing and one default case the second
  branch lowers the body of the default case. The visitor does not do that: for
  \<^verbatim>\<open>switch x case 1 { a } default { b }\<close>, in either order of the two cases, the comparison
  and the first branch are those of the value-bearing case, and the second branch lowers
  the body of the value-bearing case again; \<^verbatim>\<open>b\<close> is never lowered.
\<close>

theorem switch_else_branch_repeats_then_branch:
  "lowered (Switch (Some (Identifier ''x''))
      [MkCase (Some (MkLiteral Number ''1'' ''u64'')) (MkBlock [Identifier ''a'']),
       MkCase None (MkBlock [Identifier ''b''])]) =
     Inr [AddLine ''(if (result i64) '', Indent,
          Add ''(i64.eq '', Add ''(get_local $x)'', Add '' '', Add ''(i64.const 1)'', Add '')'',
          NewLine,
          Add ''(then '', Indent,
            Add ''(block '', Indent, Add ''(get_local $a)'', Unindent, Add '')'',
          Unindent, AddLine '')'',
          Add ''(else '', Indent,
            Add ''(block '', Indent, Add ''(get_local $a)'', Unindent, Add '')'',
          Unindent, AddLine '')'',
          Unindent, AddLine '')''] \<and>
   lowered (Switch (Some (Identifier ''x''))
      [MkCase None (MkBlock [Identifier ''b'']),
       MkCase (Some (MkLiteral Number ''1'' ''u64'')) (MkBlock [Identifier ''a''])]) =
     Inr [AddLine ''(if (result i64) '', Indent,
          Add ''(i64.eq '', Add ''(get_local $x)'', Add '' '', Add ''(i64.const 1)'', Add '')'',
          NewLine,
          Add ''(then '', Indent,
            Add ''(block '', Indent, Add ''(get_local $a)'', Unindent, Add '')'',
          Unindent, AddLine '')'',
          Add ''(else '', Indent,
            Add ''(block '', Indent, Add ''(get_local $a)'', Unindent, Add '')'',
          Unindent, AddLine '')'',
          Unindent, AddLine '')'']"
  by (simp add: eval_defs)

text \<open>
  C2 says that a switch with no case, with more than two cases or without a default case
  fails with a shape error. The visitor rejects more than two cases
  (\<open>switch_more_than_two_cases\<close>), but it translates a switch whose two cases both carry
  a value, and one whose only case carries a value (what its second assertion rejects
  is two cases without a value, \<open>switch_two_default_cases\<close>); and on a switch without
  cases it reads \<^verbatim>\<open>cases[0]\<close> of an empty vector, which is no shape error.
\<close>

theorem switch_without_default_is_translated:
  "lowered (Switch (Some (Identifier ''x''))
      [MkCase (Some (MkLiteral Number ''1'' ''u64'')) (MkBlock [Identifier ''a'']),
       MkCase (Some (MkLiteral Number ''2'' ''u64'')) (MkBlock [Identifier ''b''])]) =
     Inr [AddLine ''(if (result i64) '', Indent,
          Add ''(i64.eq '', Add ''(get_local $x)'', Add '' '', Add ''(i64.const 1)'', Add '')'',
          NewLine,
          Add ''(then '', Indent,
            Add ''(block '', Indent, Add ''(get_local $a)'', Unindent, Add '')'',
          Unindent, AddLine '')'',
          Add ''(else '', Indent,
            Add ''(block '', Indent, Add ''(get_local $a)'', Unindent, Add '')'',
          Unindent, AddLine '')'',
          Unindent, AddLine '')''] \<and>
   lowered (Switch (Some (Identifier ''x''))
      [MkCase (Some (MkLiteral Number ''1'' ''u64'')) (MkBlock [Identifier ''a''])]) =
     Inr [AddLine ''(if (result i64) '', Indent,
          Add ''(i64.eq '', Add ''(get_local $x)'', Add '' '', Add ''(i64.const 1)'', Add '')'',
          NewLine,
          Add ''(then '', Indent,
            Add ''(block '', Indent, Add ''(get_local $a)'', Unindent, Add '')'',
          Unindent, AddLine '')'',
          Unindent, AddLine '')''] \<and>
   lowered (Switch (Some (Identifier ''x'')) []) = Inl VectorOutOfRange"
  by (simp add: eval_defs)

text \<open>
  C3 says that a switch whose only case is the default case is translated without an
  out-of-range access. The visitor does not do that: the value of \<^verbatim>\<open>cases[0]\<close> is null,
  so its second assertion goes on to read \<^verbatim>\<open>cases[1]\<close> of a vector of one element.
\<close>

theorem switch_single_default_reads_out_of_range:
  "visit (Switch expression [MkCase None body]) output = Inl VectorOutOfRange"
  by (simp add: switchDefaultcase_def and_then_def)

section \<open>Grouping of blocks\<close>

text \<open>
  C9, as stated, fails at the body of a function definition: it is a block nested below
  the root, and the visitor lowers it with \<^verbatim>\<open>visitStatements\<close>, as it does the root, so no
  grouping construct surrounds its statements.
\<close>

theorem function_body_not_grouped_counterexample:
  "lowered (FunctionDefinition ''f'' [] [] (MkBlock [Identifier ''x''])) =
     Inr [NewLine, AddLine ''(func $f '', Indent, NewLine, NewLine, Add ''(get_local $x)'',
          NewLine, NewLine, Unindent, AddLine '')'', NewLine] \<and>
   Add ''(block '' \<notin> set [NewLine, AddLine ''(func $f '', Indent, NewLine, NewLine,
          Add ''(get_local $x)'', NewLine, NewLine, Unindent, AddLine '')'', NewLine]"
  by (simp add: eval_defs)

text \<open>
  C9, amended: the statements of the root block are lowered directly inside the module
  wrapper, with no grouping construct of the root's own, and so are the statements of the
  body of every function definition, directly inside the function construct; every block
  that is lowered as a statement, and every body of a switch case that is lowered, is
  wrapped in the grouping construct \<open>(block \<dots>)\<close>. The theorem states this for the root,
  for \<^verbatim>\<open>operator()(assembly::Block const&)\<close>, which is where the wrapper is added, for a
  block as a statement, for the body of the case at every index, for each of the three
  shapes of switch that are translated at all (and there are no others), and for every
  function definition.
\<close>

theorem block_grouping:
  "Generator block =
     (case loweredStatements block of
        Inl err \<Rightarrow> Inl err
      | Inr calls \<Rightarrow> Inr ([AddLine ''(module '', Indent] @ calls @ [Unindent, AddLine '')''])) \<and>
   loweredBlock block =
     (case loweredStatements block of
        Inl err \<Rightarrow> Inl err
      | Inr calls \<Rightarrow> Inr ([Add ''(block '', Indent] @ calls @ [Unindent, Add '')''])) \<and>
   lowered (Block block) = loweredBlock block \<and>
   visitCaseBody cases i [] =
     (case at cases i of
        Inl err \<Rightarrow> Inl err
      | Inr c \<Rightarrow> loweredBlock (case_body c)) \<and>
   lowered (Switch (Some e) [MkCase (Some l) b1]) =
     (case lowered e of
        Inl err \<Rightarrow> Inl err
      | Inr ce \<Rightarrow>
     (case loweredLiteral l of
        Inl err \<Rightarrow> Inl err
      | Inr cl \<Rightarrow>
     (case loweredBlock b1 of
        Inl err \<Rightarrow> Inl err
      | Inr c1 \<Rightarrow>
          Inr ([AddLine ''(if (result i64) '', Indent, Add ''(i64.eq ''] @ ce @ [Add '' ''] @
               cl @ [Add '')'', NewLine, Add ''(then '', Indent] @ c1 @
               [Unindent, AddLine '')'', Unindent, AddLine '')''])))) \<and>
   lowered (Switch (Some e) [MkCase (Some l) b1, MkCase v b0]) =
     (case lowered e of
        Inl err \<Rightarrow> Inl err
      | Inr ce \<Rightarrow>
     (case loweredLiteral l of
        Inl err \<Rightarrow> Inl err
      | Inr cl \<Rightarrow>
     (case loweredBlock b1 of
        Inl err \<Rightarrow> Inl err
      | Inr c1 \<Rightarrow>
          Inr ([AddLine ''(if (result i64) '', Indent, Add ''(i64.eq ''] @ ce @ [Add '' ''] @
               cl @ [Add '')'', NewLine, Add ''(then '', Indent] @ c1 @
               [Unindent, AddLine '')'', Add ''(else '', Indent] @ c1 @
               [Unindent, AddLine '')'', Unindent, AddLine '')''])))) \<and>
   lowered (Switch (Some e) [MkCase None b0, MkCase (Some l) b1]) =
     (case lowered e of
        Inl err \<Rightarrow> Inl err
      | Inr ce \<Rightarrow>
     (case loweredLiteral l of
        Inl err \<Rightarrow> Inl err
      | Inr cl \<Rightarrow>
     (case loweredBlock b1 of
        Inl err \<Rightarrow> Inl err
      | Inr c1 \<Rightarrow>
          Inr ([AddLine ''(if (result i64) '', Indent, Add ''(i64.eq ''] @ ce @ [Add '' ''] @
               cl @ [Add '')'', NewLine, Add ''(then '', Indent] @ c1 @
               [Unindent, AddLine '')'', Add ''(else '', Indent] @ c1 @
               [Unindent, AddLine '')'', Unindent, AddLine '')''])))) \<and>
   (lowered (Switch expression cases') = Inr switchCalls \<longrightarrow>
      (\<exists>e' l' b1'. expression = Some e' \<and>
         (cases' = [MkCase (Some l') b1'] \<or>
          (\<exists>v' b0'. cases' = [MkCase (Some l') b1', MkCase v' b0']) \<or>
          (\<exists>b0'. cases' = [MkCase None b0', MkCase (Some l') b1'])))) \<and>
   lowered (FunctionDefinition name arguments returns body) =
     (case visitParameters arguments [] of
        Inl err \<Rightarrow> Inl err
      | Inr params \<Rightarrow>
     (if \<not> length returns \<le> 1
        then Inl (InternalCompilerError ''Multiple return values not supported yet.'')
      else
     (case visitReturns returns [] [] of
        Inl err \<Rightarrow> Inl err
      | Inr (returnName, declarations) \<Rightarrow>
     (case loweredStatements body of
        Inl err \<Rightarrow> Inl err
      | Inr calls \<Rightarrow>
          Inr ([NewLine, AddLine (''(func $'' @ name @ '' ''), Indent] @ params @
               declarations @ [NewLine, NewLine] @ calls @ [NewLine, NewLine] @
               (if returnName \<noteq> [] then [AddLine (''(return $'' @ returnName @ '')'')]
                else []) @
               [Unindent, AddLine '')'', NewLine])))))"
proof -
  have root: "Generator block =
     (case loweredStatements block of
        Inl err \<Rightarrow> Inl err
      | Inr calls \<Rightarrow> Inr ([AddLine ''(module '', Indent] @ calls @ [Unindent, AddLine '')'']))"
    unfolding lowered_defs Generator_def
    by (cases "visitStatements block []") (simp_all add: from_empty writer_defs)
  have wrapper: "loweredBlock block =
     (case loweredStatements block of
        Inl err \<Rightarrow> Inl err
      | Inr calls \<Rightarrow> Inr ([Add ''(block '', Indent] @ calls @ [Unindent, Add '')'']))"
    unfolding lowered_defs
    by (cases "visitStatements block []") (simp_all add: from_empty writer_defs)
  have statement: "lowered (Block block) = loweredBlock block"
    by (simp add: lowered_defs del: visitBlock.simps)
  note root wrapper statement visitCaseBody_at [of cases i]
    switch_single_valued_case [of e l b1] switch_first_case_valued [of e l b1 v b0]
    switch_second_case_valued [of e b0 l b1]
    function_definition_frame [of name arguments returns body]
  moreover have "lowered (Switch expression cases') = Inr switchCalls \<longrightarrow>
      (\<exists>e' l' b1'. expression = Some e' \<and>
         (cases' = [MkCase (Some l') b1'] \<or>
          (\<exists>v' b0'. cases' = [MkCase (Some l') b1', MkCase v' b0']) \<or>
          (\<exists>b0'. cases' = [MkCase None b0', MkCase (Some l') b1'])))"
    using switch_translated_shapes [of expression cases' switchCalls] by blast
  ultimately show ?thesis by (intro conjI)
qed

theorem block_grouping_witness:
  "Generator (MkBlock [Block (MkBlock [Identifier ''x''])]) =
     Inr [AddLine ''(module '', Indent, Add ''(block '', Indent, Add ''(get_local $x)'',
          Unindent, Add '')'', Unindent, AddLine '')''] \<and>
   visitCaseBody
     [MkCase None (MkBlock [Identifier ''b'']),
      MkCase (Some (MkLiteral Number ''1'' ''u64'')) (MkBlock [Identifier ''a''])] 1 [] =
     Inr [Add ''(block '', Indent, Add ''(get_local $a)'', Unindent, Add '')''] \<and>
   lowered (Switch (Some (Identifier ''x''))
      [MkCase None (MkBlock [Identifier ''b'']),
       MkCase (Some (MkLiteral Number ''1'' ''u64'')) (MkBlock [Identifier ''a''])]) =
     Inr [AddLine ''(if (result i64) '', Indent,
          Add ''(i64.eq '', Add ''(get_local $x)'', Add '' '', Add ''(i64.const 1)'', Add '')'',
          NewLine,
          Add ''(then '', Indent,
            Add ''(block '', Indent, Add ''(get_local $a)'', Unindent, Add '')'',
          Unindent, AddLine '')'',
          Add ''(else '', Indent,
            Add ''(block '', Indent, Add ''(get_local $a)'', Unindent, Add '')'',
          Unindent, AddLine '')'',
          Unindent, AddLine '')''] \<and>
   lowered (FunctionDefinition ''f'' [] [MkTypedName ''r'' ''u64'']
      (MkBlock [Identifier ''x''])) =
     Inr [NewLine, AddLine ''(func $f '', Indent, AddLine ''(result i64)'',
          AddLine ''(local $r i64)'', NewLine, NewLine, Add ''(get_local $x)'',
          NewLine, NewLine, AddLine ''(return $r)'', Unindent, AddLine '')'', NewLine]"
  using block_grouping
    [where block = "MkBlock [Block (MkBlock [Identifier ''x''])]"
       and cases = "[MkCase None (MkBlock [Identifier ''b'']),
                     MkCase (Some (MkLiteral Number ''1'' ''u64'')) (MkBlock [Identifier ''a''])]"
       and i = 1 and e = "Identifier ''x''" and l = "MkLiteral Number ''1'' ''u64''"
       and ?b1.0 = "MkBlock [Identifier ''a'']" and ?b0.0 = "MkBlock [Identifier ''b'']"
       and v = None
       and expression = "Some (Identifier ''x'')"
       and cases' = "[MkCase None (MkBlock [Identifier ''b'']),
                      MkCase (Some (MkLiteral Number ''1'' ''u64'')) (MkBlock [Identifier ''a''])]"
       and switchCalls = "[]"
       and name = "''f''" and arguments = "[]" and returns = "[MkTypedName ''r'' ''u64'']"
       and body = "MkBlock [Identifier ''x'']"]
  by (simp add: eval_defs)

end
